theory Spec2Isabelle
  imports Main
begin

section \<open>The platform underneath the application\<close>

text \<open>
  \<^verbatim>\<open>app.py\<close> stores prices and totals in SQLite columns declared \<^verbatim>\<open>REAL\<close>,
  multiplies them as Python floats, prints them with an f-string, and reads dates with
  \<^verbatim>\<open>datetime.strptime(_, "%Y-%m-%d")\<close>. None of that is code of the application, and
  binary floating point has no counterpart in HOL, so these primitives are parameters
  of the model. \<open>'r\<close> is the type of floating-point numbers.

  \<^item> \<open>to_real t\<close>: SQLite's conversion of a text bound to a \<^verbatim>\<open>REAL\<close> column, \<open>None\<close>
    when the text is not a well-formed numeric literal (it is then stored as text);
  \<^item> \<open>float_mul x n\<close>: Python's \<^verbatim>\<open>x * n\<close> for a float \<open>x\<close> and an int \<open>n\<close>;
  \<^item> \<open>is_nan x\<close>: whether the float is a NaN (SQLite stores a bound NaN as \<^verbatim>\<open>NULL\<close>);
  \<^item> \<open>float_str x\<close>: Python's \<^verbatim>\<open>str(x)\<close> of a float, as an f-string prints it;
  \<^item> \<open>strptime t\<close>: the proleptic Gregorian ordinal of the date that
    \<^verbatim>\<open>datetime.strptime(t, "%Y-%m-%d")\<close> returns, \<open>None\<close> when it raises \<^verbatim>\<open>ValueError\<close>.
\<close>

record 'r platform =
  to_real :: "string \<Rightarrow> 'r option"
  float_mul :: "'r \<Rightarrow> int \<Rightarrow> 'r"
  is_nan :: "'r \<Rightarrow> bool"
  float_str :: "'r \<Rightarrow> string"
  strptime :: "string \<Rightarrow> int option"

text \<open>
  A value of a \<^verbatim>\<open>REAL\<close> column as SQLite keeps it and as Python reads it back:
  \<^verbatim>\<open>NULL\<close>/\<^verbatim>\<open>None\<close>, a float, or a text/\<^verbatim>\<open>str\<close>.
\<close>

datatype 'r val = Null | Real 'r | Text string

text \<open>Exceptions that the views leave uncaught; Flask answers them with status 500.\<close>

datatype exn = TypeError | ValueError | IntegrityError

definition bind_param :: "'r platform \<Rightarrow> 'r val \<Rightarrow> 'r val" where
  \<comment> \<open>a Python value bound to a \<^verbatim>\<open>?\<close> of a statement\<close>
  "bind_param P v = (case v of Real x \<Rightarrow> (if is_nan P x then Null else Real x) | _ \<Rightarrow> v)"

definition real_affinity :: "'r platform \<Rightarrow> 'r val \<Rightarrow> 'r val" where
  \<comment> \<open>what a \<^verbatim>\<open>REAL\<close> column does to a value it is given\<close>
  "real_affinity P v =
     (case v of Text t \<Rightarrow> (case to_real P t of Some x \<Rightarrow> Real x | None \<Rightarrow> Text t) | _ \<Rightarrow> v)"

definition py_mul :: "'r platform \<Rightarrow> 'r val \<Rightarrow> int \<Rightarrow> exn + 'r val" where
  \<comment> \<open>Python's \<^verbatim>\<open>price * total_days\<close>: a float product, a repeated \<^verbatim>\<open>str\<close>, or a TypeError\<close>
  "py_mul P v n =
     (case v of
        Null \<Rightarrow> Inl TypeError
      | Real x \<Rightarrow> Inr (Real (float_mul P x n))
      | Text t \<Rightarrow> Inr (Text (concat (replicate (nat n) t))))"

definition py_format :: "'r platform \<Rightarrow> 'r val \<Rightarrow> string" where
  \<comment> \<open>\<^verbatim>\<open>f"{v}"\<close>\<close>
  "py_format P v = (case v of Null \<Rightarrow> ''None'' | Real x \<Rightarrow> float_str P x | Text t \<Rightarrow> t)"

definition digit_char :: "nat \<Rightarrow> char" where
  "digit_char d = ''0123456789'' ! d"

fun str_nat :: "nat \<Rightarrow> string" where
  "str_nat n = (if n < 10 then [digit_char n] else str_nat (n div 10) @ [digit_char (n mod 10)])"

declare str_nat.simps [simp del]

definition str_int :: "int \<Rightarrow> string" where
  \<comment> \<open>Python's \<^verbatim>\<open>str(n)\<close> of an int\<close>
  "str_int n = (if n < 0 then CHR ''-'' # str_nat (nat (- n)) else str_nat (nat n))"

section \<open>The database\<close>

text \<open>
  The tables of \<^verbatim>\<open>init_db\<close>. A table is the list of its rows in insertion order. The
  \<^verbatim>\<open>status\<close> column is text, but the application writes only the default
  \<^verbatim>\<open>'Disponible'\<close> and one literal for an occupied room into it (\<open>Occupee\<close>
  here; the source writes its second e with an acute accent), so it is an enumeration.
  The id fields of a booking are the integers SQLite makes of the form's texts; a text
  that is no integer matches no row, like an integer that names none. The
  \<^verbatim>\<open>users\<close> table serves the login only and is left out.
\<close>

datatype status = Disponible | Occupee

record client =
  c_id :: int
  c_name :: string
  c_phone :: string

record 'r room =
  r_id :: int
  r_number :: string
  r_type :: string
  r_price :: "'r val"
  r_status :: status

record 'r booking =
  b_id :: int
  b_client_id :: int
  b_room_id :: int
  b_checkin :: string
  b_checkout :: string
  b_total :: "'r val"

text \<open>
  Every table has \<^verbatim>\<open>id INTEGER PRIMARY KEY AUTOINCREMENT\<close>: SQLite keeps the largest
  id it ever gave out per table (\<^verbatim>\<open>sqlite_sequence\<close>) and gives the next row that plus
  one.
\<close>

record 'r store =
  t_clients :: "client list"
  t_rooms :: "'r room list"
  t_bookings :: "'r booking list"
  client_seq :: int
  room_seq :: int
  booking_seq :: int

definition init_db :: "'r store" where
  \<comment> \<open>the database \<^verbatim>\<open>init_db()\<close> leaves when it starts from no file\<close>
  "init_db = \<lparr>t_clients = [], t_rooms = [], t_bookings = [],
              client_seq = 0, room_seq = 0, booking_seq = 0\<rparr>"

text \<open>
  A connection sees its own uncommitted writes (\<open>pending\<close>); the file (\<open>disk\<close>) changes
  at \<^verbatim>\<open>commit()\<close> only. A view that raises drops its connection without a commit,
  and what it wrote is rolled back.
\<close>

record 'r conn =
  disk :: "'r store"
  pending :: "'r store"

definition get_db_connection :: "'r store \<Rightarrow> 'r conn" where
  "get_db_connection s = \<lparr>disk = s, pending = s\<rparr>"

definition commit :: "'r conn \<Rightarrow> 'r conn" where
  "commit c = c\<lparr>disk := pending c\<rparr>"

definition execute :: "('r store \<Rightarrow> 'r store) \<Rightarrow> 'r conn \<Rightarrow> 'r conn" where
  "execute stmt c = c\<lparr>pending := stmt (pending c)\<rparr>"

subsection \<open>The statements\<close>

definition insert_client :: "string \<Rightarrow> string \<Rightarrow> 'r store \<Rightarrow> 'r store" where
  \<comment> \<open>\<^verbatim>\<open>INSERT INTO clients (name, phone) VALUES (?, ?)\<close>\<close>
  "insert_client name phone s =
     s\<lparr>t_clients := t_clients s @ [\<lparr>c_id = client_seq s + 1, c_name = name, c_phone = phone\<rparr>],
       client_seq := client_seq s + 1\<rparr>"

definition number_taken :: "'r store \<Rightarrow> string \<Rightarrow> bool" where
  \<comment> \<open>\<^verbatim>\<open>number TEXT UNIQUE\<close>\<close>
  "number_taken s number = (number \<in> set (map r_number (t_rooms s)))"

definition insert_room
  :: "'r platform \<Rightarrow> string \<Rightarrow> string \<Rightarrow> string \<Rightarrow> 'r store \<Rightarrow> 'r store" where
  \<comment> \<open>\<^verbatim>\<open>INSERT INTO rooms (number, type, price) VALUES (?, ?, ?)\<close>, the number being new\<close>
  "insert_room P number room_type price s =
     s\<lparr>t_rooms := t_rooms s @
         [\<lparr>r_id = room_seq s + 1, r_number = number, r_type = room_type,
           r_price = real_affinity P (Text price), r_status = Disponible\<rparr>],
       room_seq := room_seq s + 1\<rparr>"

definition select_price :: "'r store \<Rightarrow> int \<Rightarrow> 'r val option" where
  \<comment> \<open>\<^verbatim>\<open>SELECT price FROM rooms WHERE id=?\<close> with \<^verbatim>\<open>fetchone()\<close>\<close>
  "select_price s room_id =
     (case filter (\<lambda>r. r_id r = room_id) (t_rooms s) of [] \<Rightarrow> None | r # _ \<Rightarrow> Some (r_price r))"

definition insert_booking
  :: "'r platform \<Rightarrow> int \<Rightarrow> int \<Rightarrow> string \<Rightarrow> string \<Rightarrow> 'r val \<Rightarrow> 'r store \<Rightarrow> 'r store" where
  \<comment> \<open>\<^verbatim>\<open>INSERT INTO bookings (client_id, room_id, checkin, checkout, total) VALUES ...\<close>;
      foreign keys are declared but SQLite does not enforce them unless asked to\<close>
  "insert_booking P client_id room_id checkin checkout tot s =
     s\<lparr>t_bookings := t_bookings s @
         [\<lparr>b_id = booking_seq s + 1, b_client_id = client_id, b_room_id = room_id,
           b_checkin = checkin, b_checkout = checkout,
           b_total = real_affinity P (bind_param P tot)\<rparr>],
       booking_seq := booking_seq s + 1\<rparr>"

definition mark_occupied :: "int \<Rightarrow> 'r room \<Rightarrow> 'r room" where
  "mark_occupied room_id r = (if r_id r = room_id then r\<lparr>r_status := Occupee\<rparr> else r)"

definition update_status :: "int \<Rightarrow> 'r store \<Rightarrow> 'r store" where
  \<comment> \<open>\<^verbatim>\<open>UPDATE rooms SET status=<occupied> WHERE id=?\<close>\<close>
  "update_status room_id s = s\<lparr>t_rooms := map (mark_occupied room_id) (t_rooms s)\<rparr>"

definition select_available :: "'r store \<Rightarrow> 'r room list" where
  \<comment> \<open>\<^verbatim>\<open>SELECT * FROM rooms WHERE status='Disponible'\<close>\<close>
  "select_available s = filter (\<lambda>r. r_status r = Disponible) (t_rooms s)"

definition select_occupied_count :: "'r store \<Rightarrow> int" where
  \<comment> \<open>\<^verbatim>\<open>SELECT COUNT(*) FROM rooms WHERE status=<occupied>\<close>\<close>
  "select_occupied_count s = int (length (filter (\<lambda>r. r_status r = Occupee) (t_rooms s)))"

definition join_rows :: "'r store \<Rightarrow> 'r booking list \<Rightarrow> ('r booking \<times> client \<times> 'r room) list" where
  \<comment> \<open>\<^verbatim>\<open>FROM bookings b JOIN clients c ON b.client_id = c.id JOIN rooms r ON b.room_id = r.id\<close>\<close>
  "join_rows s bs =
     concat (map (\<lambda>b.
       concat (map (\<lambda>c.
         map (\<lambda>r. (b, c, r)) (filter (\<lambda>r. b_room_id b = r_id r) (t_rooms s)))
         (filter (\<lambda>c. b_client_id b = c_id c) (t_clients s)))) bs)"

type_synonym 'r booking_row = "int \<times> string \<times> string \<times> string \<times> string \<times> 'r val"

definition select_all_bookings :: "'r store \<Rightarrow> 'r booking_row list" where
  \<comment> \<open>the listing of the bookings page: id, client name, room number, dates, total\<close>
  "select_all_bookings s =
     map (\<lambda>(b, c, r). (b_id b, c_name c, r_number r, b_checkin b, b_checkout b, b_total b))
       (join_rows s (t_bookings s))"

definition select_invoice :: "'r store \<Rightarrow> int \<Rightarrow> ('r booking \<times> client \<times> 'r room) option" where
  \<comment> \<open>the same join \<^verbatim>\<open>WHERE b.id=?\<close>, with \<^verbatim>\<open>fetchone()\<close>\<close>
  "select_invoice s booking_id =
     (case join_rows s (filter (\<lambda>b. b_id b = booking_id) (t_bookings s)) of
        [] \<Rightarrow> None | row # _ \<Rightarrow> Some row)"

section \<open>The views\<close>

text \<open>
  A view answers with a redirect, a rendered template (named here by its file, with the
  context the view passes to it), a plain body, a file to download, or, when it raises,
  Flask's answer to an uncaught exception. The invoice is the list of flowables given to
  \<^verbatim>\<open>doc.build\<close>. Texts are sequences of bytes here: a character outside ASCII is
  its UTF-8 encoding. The dashboard's revenue, a floating-point \<^verbatim>\<open>SUM\<close>, is not part
  of its context in this model.
\<close>

datatype flowable = Paragraph string string | Spacer int int

datatype 'r response =
    Redirect string
  | Dashboard_html int int int
  | Clients_html "client list"
  | Rooms_html "'r room list"
  | Bookings_html "'r booking_row list" "client list" "'r room list"
  | Body string
  | Send_file string "flowable list"
  | Server_error exn

text \<open>\<^verbatim>\<open>request.method\<close>, with \<^verbatim>\<open>request.form\<close> when it is a POST.\<close>

datatype 'f http = GET | POST 'f

record client_form =
  fc_name :: string
  fc_phone :: string

record room_form =
  fr_number :: string
  fr_type :: string
  fr_price :: string

record booking_form =
  fb_client_id :: int
  fb_room_id :: int
  fb_checkin :: string
  fb_checkout :: string

definition dashboard :: "'r store \<Rightarrow> 'r response \<times> 'r store" where
  "dashboard s =
     (let conn = get_db_connection s;
          total_rooms = int (length (t_rooms (pending conn)));
          occupied_rooms = select_occupied_count (pending conn);
          available_rooms = total_rooms - occupied_rooms
      in (Dashboard_html total_rooms occupied_rooms available_rooms, disk conn))"

definition clients :: "client_form http \<Rightarrow> 'r store \<Rightarrow> 'r response \<times> 'r store" where
  "clients req s =
     (let conn = get_db_connection s;
          conn = (case req of
                    GET \<Rightarrow> conn
                  | POST f \<Rightarrow> commit (execute (insert_client (fc_name f) (fc_phone f)) conn))
      in (Clients_html (t_clients (pending conn)), disk conn))"

definition rooms :: "'r platform \<Rightarrow> room_form http \<Rightarrow> 'r store \<Rightarrow> 'r response \<times> 'r store" where
  "rooms P req s =
     (let conn = get_db_connection s in
      case req of
        GET \<Rightarrow> (Rooms_html (t_rooms (pending conn)), disk conn)
      | POST f \<Rightarrow>
          if number_taken (pending conn) (fr_number f)
          then (Server_error IntegrityError, disk conn)
          else
            (let conn = commit (execute
                   (insert_room P (fr_number f) (fr_type f) (fr_price f)) conn)
             in (Rooms_html (t_rooms (pending conn)), disk conn)))"

definition bookings
  :: "'r platform \<Rightarrow> booking_form http \<Rightarrow> 'r store \<Rightarrow> 'r response \<times> 'r store" where
  "bookings P req s =
     (let conn = get_db_connection s;
          cls = t_clients (pending conn);
          rms = select_available (pending conn)
      in
      case req of
        GET \<Rightarrow> (Bookings_html (select_all_bookings (pending conn)) cls rms, disk conn)
      | POST f \<Rightarrow>
          (case select_price (pending conn) (fb_room_id f) of
             None \<Rightarrow> (Server_error TypeError, disk conn)
           | Some price \<Rightarrow>
               (case strptime P (fb_checkout f) of
                  None \<Rightarrow> (Server_error ValueError, disk conn)
                | Some out_day \<Rightarrow>
                    (case strptime P (fb_checkin f) of
                       None \<Rightarrow> (Server_error ValueError, disk conn)
                     | Some in_day \<Rightarrow>
                         (let total_days = out_day - in_day in
                          case py_mul P price total_days of
                            Inl e \<Rightarrow> (Server_error e, disk conn)
                          | Inr tot \<Rightarrow>
                              (let conn = execute
                                     (insert_booking P (fb_client_id f) (fb_room_id f)
                                        (fb_checkin f) (fb_checkout f) tot) conn;
                                   conn = execute (update_status (fb_room_id f)) conn;
                                   conn = commit conn
                               in (Bookings_html (select_all_bookings (pending conn)) cls rms,
                                   disk conn)))))))"

definition not_found :: string where
  \<comment> \<open>the body \<^verbatim>\<open>"R\<close>\<open>e\<close>\<^verbatim>\<open>servation introuvable"\<close>, its first e with an acute accent\<close>
  "not_found = ''R'' @ [CHR 0xC3, CHR 0xA9] @ ''servation introuvable''"

definition title :: string where
  \<comment> \<open>\<^verbatim>\<open>"FACTURE H\<close>\<open>O\<close>\<^verbatim>\<open>TEL"\<close>, its O with a circumflex\<close>
  "title = ''FACTURE H'' @ [CHR 0xC3, CHR 0x94] @ ''TEL''"

definition euro :: string where
  \<comment> \<open>the euro sign\<close>
  "euro = [CHR 0xE2, CHR 0x82, CHR 0xAC]"

definition invoice_elements
  :: "'r platform \<Rightarrow> 'r booking \<Rightarrow> client \<Rightarrow> 'r room \<Rightarrow> flowable list" where
  "invoice_elements P b c r =
     [Paragraph title ''Title'',
      Spacer 1 12,
      Paragraph (''Client: '' @ c_name c @ '' - '' @ c_phone c) ''Normal'',
      Paragraph (''Chambre: '' @ r_number r @ '' - '' @ r_type r) ''Normal'',
      Paragraph (''Check-in: '' @ b_checkin b) ''Normal'',
      Paragraph (''Check-out: '' @ b_checkout b) ''Normal'',
      Paragraph (''Total: '' @ py_format P (b_total b) @ '' '' @ euro) ''Normal'']"

definition invoice :: "'r platform \<Rightarrow> int \<Rightarrow> 'r store \<Rightarrow> 'r response \<times> 'r store" where
  "invoice P booking_id s =
     (let conn = get_db_connection s;
          booking = select_invoice (pending conn) booking_id
      in
      case booking of
        None \<Rightarrow> (Body not_found, disk conn)
      | Some (b, c, r) \<Rightarrow>
          (Send_file (''invoice_'' @ str_int booking_id @ ''.pdf'') (invoice_elements P b c r),
           disk conn))"

subsection \<open>The access gate and the routes\<close>

text \<open>
  The session is Flask's dictionary; \<^verbatim>\<open>login_required\<close> looks only at whether it has
  the key \<^verbatim>\<open>'user_id'\<close>. \<^verbatim>\<open>url_for('login')\<close> is the path \<^verbatim>\<open>/login\<close>.
\<close>

type_synonym session = "string \<rightharpoonup> string"

definition login_required
  :: "('r store \<Rightarrow> 'r response \<times> 'r store) \<Rightarrow> session \<Rightarrow> 'r store \<Rightarrow> 'r response \<times> 'r store" where
  "login_required f sess s =
     (if ''user_id'' \<notin> dom sess then (Redirect ''/login'', s) else f s)"

datatype request =
    Req_dashboard
  | Req_clients "client_form http"
  | Req_rooms "room_form http"
  | Req_bookings "booking_form http"
  | Req_invoice int

definition app
  :: "'r platform \<Rightarrow> session \<Rightarrow> request \<Rightarrow> 'r store \<Rightarrow> 'r response \<times> 'r store" where
  \<comment> \<open>the five decorated routes\<close>
  "app P sess req =
     (case req of
        Req_dashboard \<Rightarrow> login_required dashboard sess
      | Req_clients h \<Rightarrow> login_required (clients h) sess
      | Req_rooms h \<Rightarrow> login_required (rooms P h) sess
      | Req_bookings h \<Rightarrow> login_required (bookings P h) sess
      | Req_invoice booking_id \<Rightarrow> login_required (invoice P booking_id) sess)"

text \<open>The databases the application can be in: those its requests make of the first one.\<close>

inductive reachable :: "'r platform \<Rightarrow> 'r store \<Rightarrow> bool" for P :: "'r platform" where
  reach_init: "reachable P init_db"
| reach_step: "reachable P s \<Longrightarrow> reachable P (snd (app P sess req s))"

section \<open>A platform to run the model on\<close>

text \<open>
  An instance of the platform for concrete runs: the floats that are whole numbers, each
  held as that integer. Below \<^verbatim>\<open>2**53\<close> the product of such a float and an int is
  exact in binary floating point; below \<^verbatim>\<open>1e16\<close> Python prints such a float as its
  digits followed by \<^verbatim>\<open>.0\<close>; SQLite turns a text of decimal digits, with an optional
  sign, into that float. Dates are read in the form \<^verbatim>\<open>YYYY-MM-DD\<close>, with the ordinal
  of Python's \<^verbatim>\<open>datetime\<close> module. The instance agrees with SQLite and CPython on
  such prices and dates, and on the two other texts of the runs below, \<^verbatim>\<open>abc\<close> and
  \<^verbatim>\<open>tomorrow\<close>, which neither takes for a number or a date. It is not meant for
  other inputs (a price with a decimal point, a date without leading zeros).
\<close>

fun digit_val :: "char \<Rightarrow> nat option" where
  "digit_val c =
     (if c = CHR ''0'' then Some 0 else if c = CHR ''1'' then Some 1
      else if c = CHR ''2'' then Some 2 else if c = CHR ''3'' then Some 3
      else if c = CHR ''4'' then Some 4 else if c = CHR ''5'' then Some 5
      else if c = CHR ''6'' then Some 6 else if c = CHR ''7'' then Some 7
      else if c = CHR ''8'' then Some 8 else if c = CHR ''9'' then Some 9
      else None)"

fun parse_acc :: "nat \<Rightarrow> string \<Rightarrow> nat option" where
  "parse_acc a [] = Some a"
| "parse_acc a (c # cs) =
     (case digit_val c of None \<Rightarrow> None | Some d \<Rightarrow> parse_acc (10 * a + d) cs)"

definition parse_nat :: "string \<Rightarrow> nat option" where
  "parse_nat t = (if t = [] then None else parse_acc 0 t)"

definition whole_to_real :: "string \<Rightarrow> int option" where
  "whole_to_real t =
     (case t of
        [] \<Rightarrow> None
      | c # cs \<Rightarrow>
          if c = CHR ''-'' then map_option (\<lambda>n. - int n) (parse_nat cs)
          else if c = CHR ''+'' then map_option int (parse_nat cs)
          else map_option int (parse_nat t))"

definition is_leap :: "nat \<Rightarrow> bool" where
  "is_leap y = (y mod 4 = 0 \<and> (y mod 100 \<noteq> 0 \<or> y mod 400 = 0))"

definition month_lengths :: "nat list" where
  "month_lengths = [31, 28, 31, 30, 31, 30, 31, 31, 30, 31, 30, 31]"

definition days_in_month :: "nat \<Rightarrow> nat \<Rightarrow> nat" where
  "days_in_month y m = (if m = 2 \<and> is_leap y then 29 else month_lengths ! (m - 1))"

definition days_before_year :: "nat \<Rightarrow> nat" where
  "days_before_year y = (y - 1) * 365 + (y - 1) div 4 - (y - 1) div 100 + (y - 1) div 400"

definition days_before_month :: "nat \<Rightarrow> nat \<Rightarrow> nat" where
  "days_before_month y m =
     sum_list (take (m - 1) month_lengths) + (if 2 < m \<and> is_leap y then 1 else 0)"

definition ymd2ord :: "nat \<Rightarrow> nat \<Rightarrow> nat \<Rightarrow> nat" where
  "ymd2ord y m d = days_before_year y + days_before_month y m + d"

definition iso_strptime :: "string \<Rightarrow> int option" where
  "iso_strptime t =
     (if length t = 10 \<and> t ! 4 = CHR ''-'' \<and> t ! 7 = CHR ''-'' then
        (case parse_nat (take 4 t) of
           None \<Rightarrow> None
         | Some y \<Rightarrow>
             (case parse_nat (take 2 (drop 5 t)) of
                None \<Rightarrow> None
              | Some m \<Rightarrow>
                  (case parse_nat (drop 8 t) of
                     None \<Rightarrow> None
                   | Some d \<Rightarrow>
                       if 1 \<le> y \<and> 1 \<le> m \<and> m \<le> 12 \<and> 1 \<le> d \<and> d \<le> days_in_month y m
                       then Some (int (ymd2ord y m d)) else None)))
      else None)"

definition whole_floats :: "int platform" where
  "whole_floats =
     \<lparr>to_real = whole_to_real,
      float_mul = (\<lambda>x n. x * n),
      is_nan = (\<lambda>x. False),
      float_str = (\<lambda>x. str_int x @ ''.0''),
      strptime = iso_strptime\<rparr>"

section \<open>What the proofs talk about\<close>

text \<open>
  The two writes of a booking, in the order \<^verbatim>\<open>bookings\<close> issues them: the
  \<^verbatim>\<open>INSERT\<close> of the booking, then the \<^verbatim>\<open>UPDATE\<close> of the room.
\<close>

definition booked :: "'r platform \<Rightarrow> booking_form \<Rightarrow> 'r val \<Rightarrow> 'r store \<Rightarrow> 'r store" where
  "booked P f tot s =
     update_status (fb_room_id f)
       (insert_booking P (fb_client_id f) (fb_room_id f) (fb_checkin f) (fb_checkout f) tot s)"

text \<open>
  What holds of every database the application can reach: ids are unique and no larger
  than the table's counter, a booking names a room that exists, no price is \<^verbatim>\<open>NULL\<close>,
  and a room is occupied exactly when a booking names it.
\<close>

definition store_inv :: "'r store \<Rightarrow> bool" where
  "store_inv s =
     ((\<forall>c \<in> set (t_clients s). c_id c \<le> client_seq s) \<and> distinct (map c_id (t_clients s)) \<and>
      (\<forall>r \<in> set (t_rooms s). r_id r \<le> room_seq s) \<and> distinct (map r_id (t_rooms s)) \<and>
      (\<forall>b \<in> set (t_bookings s). b_id b \<le> booking_seq s) \<and> distinct (map b_id (t_bookings s)) \<and>
      (\<forall>b \<in> set (t_bookings s). b_room_id b \<in> r_id ` set (t_rooms s)) \<and>
      (\<forall>r \<in> set (t_rooms s). r_price r \<noteq> Null) \<and>
      (\<forall>r \<in> set (t_rooms s).
         (r_status r = Occupee) = (r_id r \<in> b_room_id ` set (t_bookings s))))"

definition failed :: "'r response \<Rightarrow> bool" where
  "failed resp = (case resp of Server_error e \<Rightarrow> True | _ \<Rightarrow> False)"

definition elements_of :: "'r response \<Rightarrow> flowable list" where
  "elements_of resp = (case resp of Send_file name els \<Rightarrow> els | _ \<Rightarrow> [])"

subsection \<open>A day at the desk\<close>

text \<open>
  The requests of the specification's examples, run on \<open>whole_floats\<close>: a logged-in
  clerk registers Jane Doe, adds room 101 at 100 a night, and books it for her from
  2026-01-10 to 2026-01-12.
\<close>

definition clerk :: session where
  "clerk = [''user_id'' \<mapsto> ''1'']"

definition jane :: client_form where
  "jane = \<lparr>fc_name = ''Jane Doe'', fc_phone = ''555-1234''\<rparr>"

definition room_101 :: room_form where
  "room_101 = \<lparr>fr_number = ''101'', fr_type = ''Standard'', fr_price = ''100''\<rparr>"

definition stay :: booking_form where
  "stay = \<lparr>fb_client_id = 1, fb_room_id = 1,
            fb_checkin = ''2026-01-10'', fb_checkout = ''2026-01-12''\<rparr>"

definition db_jane :: "int store" where
  "db_jane = snd (app whole_floats clerk (Req_clients (POST jane)) init_db)"

definition db_room :: "int store" where
  "db_room = snd (app whole_floats clerk (Req_rooms (POST room_101)) db_jane)"

definition db_booked :: "int store" where
  "db_booked = snd (app whole_floats clerk (Req_bookings (POST stay)) db_room)"

text \<open>Further requests: a second stay in the same room, and stays of no or minus one night.\<close>

definition stay_again :: booking_form where
  "stay_again = \<lparr>fb_client_id = 1, fb_room_id = 1,
                  fb_checkin = ''2026-01-12'', fb_checkout = ''2026-01-14''\<rparr>"

definition stay_no_night :: booking_form where
  "stay_no_night = \<lparr>fb_client_id = 1, fb_room_id = 1,
                     fb_checkin = ''2026-01-10'', fb_checkout = ''2026-01-10''\<rparr>"

definition stay_backwards :: booking_form where
  "stay_backwards = \<lparr>fb_client_id = 1, fb_room_id = 1,
                      fb_checkin = ''2026-01-10'', fb_checkout = ''2026-01-09''\<rparr>"

definition stay_undated :: booking_form where
  "stay_undated = \<lparr>fb_client_id = 1, fb_room_id = 1,
                    fb_checkin = ''2026-01-10'', fb_checkout = ''tomorrow''\<rparr>"

text \<open>A room whose price field was filled with a word, and a stay in it.\<close>

definition room_abc :: room_form where
  "room_abc = \<lparr>fr_number = ''102'', fr_type = ''Standard'', fr_price = ''abc''\<rparr>"


text \<open>A stay booked for client 7, whom nobody registered.\<close>

definition stay_stranger :: booking_form where
  "stay_stranger = \<lparr>fb_client_id = 7, fb_room_id = 1,
                     fb_checkin = ''2026-01-10'', fb_checkout = ''2026-01-12''\<rparr>"


section \<open>The views, one equation each\<close>

lemma dashboard_eq:
  "dashboard s = (Dashboard_html (int (length (t_rooms s))) (select_occupied_count s)
     (int (length (t_rooms s)) - select_occupied_count s), s)"
  by (simp add: dashboard_def get_db_connection_def Let_def)

lemma clients_get: "clients GET s = (Clients_html (t_clients s), s)"
  by (simp add: clients_def get_db_connection_def)

lemma clients_post:
  "clients (POST f) s =
     (Clients_html (t_clients (insert_client (fc_name f) (fc_phone f) s)),
      insert_client (fc_name f) (fc_phone f) s)"
  by (simp add: clients_def get_db_connection_def commit_def execute_def)

lemma rooms_get: "rooms P GET s = (Rooms_html (t_rooms s), s)"
  by (simp add: rooms_def get_db_connection_def)


lemma rooms_post_new:
  "\<not> number_taken s (fr_number f) \<Longrightarrow>
   rooms P (POST f) s =
     (Rooms_html (t_rooms (insert_room P (fr_number f) (fr_type f) (fr_price f) s)),
      insert_room P (fr_number f) (fr_type f) (fr_price f) s)"
  by (simp add: rooms_def get_db_connection_def commit_def execute_def)

lemma bookings_get:
  "bookings P GET s = (Bookings_html (select_all_bookings s) (t_clients s) (select_available s), s)"
  by (simp add: bookings_def get_db_connection_def)


lemma bookings_post_cases:
  "(\<exists>e. bookings P (POST f) s = (Server_error e, s)) \<or>
   (\<exists>price out_day in_day tot.
      select_price s (fb_room_id f) = Some price \<and>
      strptime P (fb_checkout f) = Some out_day \<and>
      strptime P (fb_checkin f) = Some in_day \<and>
      py_mul P price (out_day - in_day) = Inr tot \<and>
      bookings P (POST f) s =
        (Bookings_html (select_all_bookings (booked P f tot s)) (t_clients s) (select_available s),
         booked P f tot s))"
  by (simp add: bookings_def get_db_connection_def commit_def execute_def booked_def Let_def
      split: option.splits sum.splits)

lemma invoice_snd: "snd (invoice P booking_id s) = s"
  by (simp add: invoice_def get_db_connection_def Let_def split: option.splits prod.splits)

lemma select_price_Some:
  "select_price s i = Some p \<Longrightarrow> \<exists>r \<in> set (t_rooms s). r_id r = i \<and> r_price r = p"
proof -
  assume a: "select_price s i = Some p"
  then obtain r rs where f: "filter (\<lambda>r. r_id r = i) (t_rooms s) = r # rs" and p: "r_price r = p"
    by (auto simp: select_price_def split: list.splits)
  have "r \<in> set (filter (\<lambda>r. r_id r = i) (t_rooms s))" using f by simp
  then show ?thesis using p by auto
qed

lemma select_price_exists:
  "r \<in> set (t_rooms s) \<Longrightarrow> \<exists>p. select_price s (r_id r) = Some p"
proof -
  assume "r \<in> set (t_rooms s)"
  then have "r \<in> set (filter (\<lambda>x. r_id x = r_id r) (t_rooms s))" by simp
  then have "filter (\<lambda>x. r_id x = r_id r) (t_rooms s) \<noteq> []" by (metis empty_iff list.set(1))
  then show ?thesis by (auto simp: select_price_def split: list.splits)
qed

lemma inv_init: "store_inv init_db"
  by (simp add: store_inv_def init_db_def)

lemma inv_insert_client: "store_inv s \<Longrightarrow> store_inv (insert_client n p s)"
  by (auto simp: store_inv_def insert_client_def)

lemma booking_room_bound:
  assumes "store_inv s" and "b \<in> set (t_bookings s)"
  shows "b_room_id b \<le> room_seq s"
proof -
  from assms have "b_room_id b \<in> r_id ` set (t_rooms s)" by (simp add: store_inv_def)
  then obtain r where "r \<in> set (t_rooms s)" and "b_room_id b = r_id r" by auto
  moreover from assms(1) have "\<forall>r \<in> set (t_rooms s). r_id r \<le> room_seq s"
    by (simp add: store_inv_def)
  ultimately show ?thesis by simp
qed

lemma inv_insert_room:
  assumes "store_inv s"
  shows "store_inv (insert_room P n t p s)"
proof -
  have fresh: "room_seq s + 1 \<notin> b_room_id ` set (t_bookings s)"
    using booking_room_bound [OF assms] by fastforce
  have fresh': "room_seq s + 1 \<notin> r_id ` set (t_rooms s)"
    using assms by (fastforce simp: store_inv_def)
  have price: "real_affinity P (Text p) \<noteq> Null"
    by (simp add: real_affinity_def split: option.splits)
  show ?thesis
    using assms fresh fresh' price
    unfolding store_inv_def insert_room_def
    by (simp add: image_iff) fastforce
qed

lemma mark_occupied_simps [simp]:
  "r_id (mark_occupied i r) = r_id r"
  "r_price (mark_occupied i r) = r_price r"
  "r_status (mark_occupied i r) = (if r_id r = i then Occupee else r_status r)"
  by (simp_all add: mark_occupied_def)

lemma booked_fields:
  "t_clients (booked P f tot s) = t_clients s"
  "client_seq (booked P f tot s) = client_seq s"
  "room_seq (booked P f tot s) = room_seq s"
  "booking_seq (booked P f tot s) = booking_seq s + 1"
  "t_rooms (booked P f tot s) = map (mark_occupied (fb_room_id f)) (t_rooms s)"
  "t_bookings (booked P f tot s) = t_bookings s @
     [\<lparr>b_id = booking_seq s + 1, b_client_id = fb_client_id f, b_room_id = fb_room_id f,
       b_checkin = fb_checkin f, b_checkout = fb_checkout f,
       b_total = real_affinity P (bind_param P tot)\<rparr>]"
  by (simp_all add: booked_def update_status_def insert_booking_def)

lemma inv_booked:
  assumes "store_inv s" and "r \<in> set (t_rooms s)" and "r_id r = fb_room_id f"
  shows "store_inv (booked P f tot s)"
proof -
  have ids: "map r_id (map (mark_occupied (fb_room_id f)) (t_rooms s)) = map r_id (t_rooms s)"
    by (simp add: comp_def)
  have img: "r_id ` mark_occupied (fb_room_id f) ` set (t_rooms s) = r_id ` set (t_rooms s)"
    by (simp add: image_image)
  have fresh: "booking_seq s + 1 \<notin> b_id ` set (t_bookings s)"
    using assms(1) by (fastforce simp: store_inv_def)
  have here: "fb_room_id f \<in> r_id ` set (t_rooms s)"
    using assms(2,3) by force
  show ?thesis
    using assms(1) fresh here
    unfolding store_inv_def booked_fields
    by (simp add: ids img image_iff comp_def) fastforce
qed

lemma inv_app: "store_inv s \<Longrightarrow> store_inv (snd (app P sess req s))"
proof (cases req)
  case Req_dashboard
  assume "store_inv s" then show ?thesis
    by (simp add: Req_dashboard app_def login_required_def dashboard_eq)
next
  case (Req_clients h)
  assume "store_inv s" then show ?thesis
    by (cases h) (simp_all add: Req_clients app_def login_required_def clients_get clients_post
        inv_insert_client)
next
  case (Req_rooms h)
  assume "store_inv s" then show ?thesis
    by (cases h)
      (auto simp: Req_rooms app_def login_required_def rooms_def get_db_connection_def
        commit_def execute_def Let_def inv_insert_room)
next
  case (Req_bookings h)
  assume inv: "store_inv s"
  show ?thesis
  proof (cases h)
    case GET
    with inv show ?thesis by (simp add: Req_bookings app_def login_required_def bookings_get)
  next
    case (POST f)
    from bookings_post_cases [of P f s] show ?thesis
    proof
      assume "\<exists>e. bookings P (POST f) s = (Server_error e, s)"
      with inv show ?thesis by (auto simp: Req_bookings POST app_def login_required_def)
    next
      assume "\<exists>price out_day in_day tot.
        select_price s (fb_room_id f) = Some price \<and>
        strptime P (fb_checkout f) = Some out_day \<and>
        strptime P (fb_checkin f) = Some in_day \<and>
        py_mul P price (out_day - in_day) = Inr tot \<and>
        bookings P (POST f) s =
          (Bookings_html (select_all_bookings (booked P f tot s)) (t_clients s) (select_available s),
           booked P f tot s)"
      then obtain price tot where sp: "select_price s (fb_room_id f) = Some price"
        and eq: "snd (bookings P (POST f) s) = booked P f tot s" by force
      from select_price_Some [OF sp] obtain r where "r \<in> set (t_rooms s)" "r_id r = fb_room_id f"
        by auto
      then have "store_inv (booked P f tot s)" using inv inv_booked by blast
      with inv eq show ?thesis by (simp add: Req_bookings POST app_def login_required_def)
    qed
  qed
next
  case (Req_invoice i)
  assume "store_inv s" then show ?thesis
    by (simp add: Req_invoice app_def login_required_def invoice_snd)
qed

lemma reachable_inv: "reachable P s \<Longrightarrow> store_inv s"
  by (induction rule: reachable.induct) (simp_all add: inv_init inv_app)

section \<open>Lookups by a unique id\<close>









section \<open>Running the day at the desk\<close>

lemmas db_defs = get_db_connection_def commit_def execute_def insert_client_def number_taken_def
  insert_room_def select_price_def insert_booking_def mark_occupied_def update_status_def
  select_available_def select_occupied_count_def join_rows_def select_all_bookings_def
  select_invoice_def bind_param_def real_affinity_def py_mul_def py_format_def booked_def
lemmas view_defs = dashboard_def clients_def rooms_def bookings_def invoice_def
  invoice_elements_def app_def login_required_def init_db_def failed_def elements_of_def
lemmas platform_defs = whole_floats_def whole_to_real_def parse_nat_def iso_strptime_def
  ymd2ord_def days_before_year_def days_before_month_def days_in_month_def is_leap_def
  month_lengths_def str_int_def str_nat.simps digit_char_def
lemmas desk_defs = clerk_def jane_def room_101_def stay_def stay_again_def stay_no_night_def
  stay_backwards_def stay_undated_def room_abc_def stay_stranger_def

lemma db_jane_eq:
  "db_jane = \<lparr>t_clients = [\<lparr>c_id = 1, c_name = ''Jane Doe'', c_phone = ''555-1234''\<rparr>],
               t_rooms = [], t_bookings = [], client_seq = 1, room_seq = 0, booking_seq = 0\<rparr>"
  by (simp add: db_jane_def desk_defs view_defs db_defs)

lemma db_room_eq:
  "db_room = \<lparr>t_clients = [\<lparr>c_id = 1, c_name = ''Jane Doe'', c_phone = ''555-1234''\<rparr>],
     t_rooms = [\<lparr>r_id = 1, r_number = ''101'', r_type = ''Standard'', r_price = Real 100,
                 r_status = Disponible\<rparr>],
     t_bookings = [], client_seq = 1, room_seq = 1, booking_seq = 0\<rparr>"
  by (simp add: db_room_def db_jane_eq desk_defs view_defs db_defs platform_defs)

lemma db_booked_eq:
  "db_booked = \<lparr>t_clients = [\<lparr>c_id = 1, c_name = ''Jane Doe'', c_phone = ''555-1234''\<rparr>],
     t_rooms = [\<lparr>r_id = 1, r_number = ''101'', r_type = ''Standard'', r_price = Real 100,
                 r_status = Occupee\<rparr>],
     t_bookings = [\<lparr>b_id = 1, b_client_id = 1, b_room_id = 1, b_checkin = ''2026-01-10'',
                    b_checkout = ''2026-01-12'', b_total = Real 200\<rparr>],
     client_seq = 1, room_seq = 1, booking_seq = 1\<rparr>"
  by (simp add: db_booked_def db_room_eq desk_defs view_defs db_defs platform_defs)

lemma reachable_db_room: "reachable whole_floats db_room"
  unfolding db_room_def db_jane_def by (intro reach_step reach_init)

lemma reachable_db_booked: "reachable whole_floats db_booked"
  unfolding db_booked_def by (intro reach_step reachable_db_room)





section \<open>The access gate\<close>

text \<open>
  Claim C9. A request whose session has no \<^verbatim>\<open>'user_id'\<close> is answered, on every one of
  the five routes (dashboard, clients, rooms, bookings, invoice) and whatever its method
  and form, by a redirect to the login page, and the database is the one it was: the
  view behind the gate is not run.
\<close>

theorem gate_rejects_unauthenticated:
  "''user_id'' \<notin> dom sess \<Longrightarrow> app P sess req s = (Redirect ''/login'', s)"
  by (cases req) (simp_all add: app_def login_required_def)

theorem gate_rejects_unauthenticated_witness:
  "''user_id'' \<notin> dom (Map.empty :: session) \<and>
   app whole_floats Map.empty (Req_bookings (POST stay)) db_room = (Redirect ''/login'', db_room) \<and>
   app whole_floats Map.empty (Req_invoice 1) db_booked = (Redirect ''/login'', db_booked)"
  using gate_rejects_unauthenticated [of Map.empty whole_floats "Req_bookings (POST stay)" db_room]
    gate_rejects_unauthenticated [of Map.empty whole_floats "Req_invoice 1" db_booked]
  by simp

section \<open>Registering clients and rooms\<close>



text \<open>
  Claim C10. A room that was just added has status \<open>Disponible\<close>, whatever its type and
  price are, and is among the rooms that the bookings page then offers.
\<close>

theorem new_room_is_offered:
  assumes "\<not> number_taken s (fr_number f)"
  shows "\<exists>r rows cl offered.
           t_rooms (snd (rooms P (POST f) s)) = t_rooms s @ [r] \<and>
           r_number r = fr_number f \<and> r_status r = Disponible \<and>
           bookings P GET (snd (rooms P (POST f) s)) =
             (Bookings_html rows cl offered, snd (rooms P (POST f) s)) \<and>
           r \<in> set offered"
  using assms
  by (simp add: rooms_post_new bookings_get insert_room_def select_available_def)

theorem new_room_is_offered_witness:
  "\<not> number_taken db_room (fr_number room_abc) \<and>
   (\<exists>r rows cl offered.
      t_rooms (snd (rooms whole_floats (POST room_abc) db_room)) = t_rooms db_room @ [r] \<and>
      r_number r = ''102'' \<and> r_status r = Disponible \<and>
      bookings whole_floats GET (snd (rooms whole_floats (POST room_abc) db_room)) =
        (Bookings_html rows cl offered, snd (rooms whole_floats (POST room_abc) db_room)) \<and>
      r \<in> set offered)"
  using new_room_is_offered [of db_room room_abc whole_floats]
  by (simp add: db_room_eq desk_defs number_taken_def)

section \<open>Occupancy\<close>

text \<open>
  Claim C5. In every database that requests to the five routes produce from the first
  one, a room is occupied if and only if some booking names it.
\<close>

theorem occupied_iff_booked:
  assumes "reachable P s" and "r \<in> set (t_rooms s)"
  shows "(r_status r = Occupee) = (\<exists>b \<in> set (t_bookings s). b_room_id b = r_id r)"
  using reachable_inv [OF assms(1)] assms(2) unfolding store_inv_def by (simp add: image_iff) metis

theorem occupied_iff_booked_witness:
  "reachable whole_floats db_booked \<and> hd (t_rooms db_booked) \<in> set (t_rooms db_booked) \<and>
   r_status (hd (t_rooms db_booked)) = Occupee \<and>
   (\<exists>b \<in> set (t_bookings db_booked). b_room_id b = r_id (hd (t_rooms db_booked))) \<and>
   reachable whole_floats db_room \<and> hd (t_rooms db_room) \<in> set (t_rooms db_room) \<and>
   r_status (hd (t_rooms db_room)) = Disponible \<and>
   \<not> (\<exists>b \<in> set (t_bookings db_room). b_room_id b = r_id (hd (t_rooms db_room)))"
  using occupied_iff_booked [of whole_floats db_booked "hd (t_rooms db_booked)"]
    occupied_iff_booked [of whole_floats db_room "hd (t_rooms db_room)"]
    reachable_db_booked reachable_db_room
  by (simp add: db_booked_eq db_room_eq)

section \<open>Creating a booking\<close>















section \<open>The invoice\<close>




text \<open>
  Claim C7, as the code has it. Jane Doe's stay in room 101, two nights at 100, has the
  total 200.0, a floating-point number as the \<^verbatim>\<open>REAL\<close> columns make it, and the invoice
  holds the client, room and date lines verbatim and the total as the text
  \<^verbatim>\<open>200.0\<close>.
\<close>

theorem jane_invoice:
  "map b_total (t_bookings db_booked) = [Real 200] \<and>
   app whole_floats clerk (Req_invoice 1) db_booked =
     (Send_file ''invoice_1.pdf''
        [Paragraph title ''Title'', Spacer 1 12,
         Paragraph ''Client: Jane Doe - 555-1234'' ''Normal'',
         Paragraph ''Chambre: 101 - Standard'' ''Normal'',
         Paragraph ''Check-in: 2026-01-10'' ''Normal'',
         Paragraph ''Check-out: 2026-01-12'' ''Normal'',
         Paragraph (''Total: 200.0 '' @ euro) ''Normal''],
      db_booked)"
  by (simp add: db_booked_eq desk_defs view_defs db_defs platform_defs)

text \<open>
  Claim C7 as the specification words it fails: the total is printed as \<^verbatim>\<open>200.0\<close>,
  which is not the text \<^verbatim>\<open>200\<close>.
\<close>

theorem jane_total_text:
  "py_format whole_floats (b_total (hd (t_bookings db_booked))) = ''200.0'' \<and>
   py_format whole_floats (b_total (hd (t_bookings db_booked))) \<noteq> ''200'' \<and>
   last (elements_of (fst (app whole_floats clerk (Req_invoice 1) db_booked))) =
     Paragraph (''Total: 200.0 '' @ euro) ''Normal''"
  by (simp add: db_booked_eq desk_defs view_defs db_defs platform_defs)


end
